theory Spec2Isabelle
  imports Main
begin

section \<open>The messagepack metadata backend\<close>

text \<open>
  A shallow embedding of package \<open>metadata\<close>: the \<open>MessagePackBackend\<close> that keeps the
  extended attributes of a node in a sidecar file \<open>path.mpk\<close>, guarded by a lock file
  \<open>path.mlock\<close> and fronted by a metadata cache.

  The file system and the cache are an explicit state that every operation takes and
  returns. What the operating system, the cache, the codec and the lock library answer
  is an explicit environment: for every call that the source checks for an error there
  is an oracle that names the error, if any, that the call returns.
\<close>

subsection \<open>Data\<close>

text \<open>A Go \<open>[]byte\<close> and a Go \<open>string\<close> are both byte sequences; \<open>char\<close> is a byte.\<close>

type_synonym bytes = "char list"

text \<open>\<open>map[string][]byte\<close>: keys are unique, the order of entries is not observable.\<close>

type_synonym attrs = "string \<rightharpoonup> bytes"

text \<open>
  The errors that the backend creates itself or tells apart, and \<open>ErrOther\<close> for every
  other error value that a collaborator may hand back.
\<close>

datatype error =
    ErrNotExist string              \<comment> \<open>\<open>fs.ErrNotExist\<close>, with the path\<close>
  | ErrInvalid                      \<comment> \<open>\<open>os.ErrInvalid\<close>\<close>
  | ErrEmptyMetadata                \<comment> \<open>"encountered empty metadata file"\<close>
  | ENOATTR string string           \<comment> \<open>\<open>xattr.Error{Op: "mpk.get", Path, Name, Err: ENOATTR}\<close>\<close>
  | ErrSyntax                       \<comment> \<open>\<open>strconv.ErrSyntax\<close>\<close>
  | ErrRange                        \<comment> \<open>\<open>strconv.ErrRange\<close>\<close>
  | ErrCacheMiss                    \<comment> \<open>the cache has no entry under the key\<close>
  | ErrOther nat

text \<open>\<open>os.IsNotExist(err)\<close> and \<open>errors.Is(err, fs.ErrNotExist)\<close>.\<close>

fun IsNotExist :: "error \<Rightarrow> bool" where
  "IsNotExist (ErrNotExist p) = True"
| "IsNotExist e = False"

text \<open>
  How a Go call ends: it returns its result, or it panics. Only \<open>saveAttributes\<close> has a
  path on which a panic is possible.
\<close>

datatype 'a outcome = Returned 'a | Panicked

text \<open>\<open>MessagePackBackend\<close>; its \<open>metaCache\<close> lives in the state below.\<close>

record backend =
  rootPath :: string

text \<open>The files below the storage root, with their content, and the metadata cache.\<close>

record world =
  files :: "string \<rightharpoonup> bytes"
  cache :: "string \<rightharpoonup> attrs"

text \<open>
  The answers of the collaborators. An oracle maps the path or the cache key of a call to
  the error that the call returns; \<open>None\<close> lets the call go through. \<open>marshal\<close> and
  \<open>unmarshal\<close> are \<open>msgpack.Marshal\<close> and \<open>msgpack.Unmarshal\<close> on attribute maps.
\<close>

record env =
  lock_err :: "string \<Rightarrow> error option"         \<comment> \<open>\<open>lockedfile.OpenFile\<close>\<close>
  readfile_err :: "string \<Rightarrow> error option"     \<comment> \<open>\<open>os.ReadFile\<close>\<close>
  open_err :: "string \<Rightarrow> error option"         \<comment> \<open>\<open>os.Open\<close>\<close>
  readall_err :: "string \<Rightarrow> error option"      \<comment> \<open>\<open>io.ReadAll\<close> on an opened file\<close>
  stat_err :: "string \<Rightarrow> error option"         \<comment> \<open>\<open>os.Stat\<close>\<close>
  write_err :: "string \<Rightarrow> error option"        \<comment> \<open>\<open>renameio.WriteFile\<close>\<close>
  remove_err :: "string \<Rightarrow> error option"       \<comment> \<open>\<open>os.Remove\<close>\<close>
  rename_err :: "string \<Rightarrow> error option"       \<comment> \<open>\<open>os.Rename\<close>, by the old path\<close>
  pull_err :: "string \<Rightarrow> error option"         \<comment> \<open>\<open>PullFromCache\<close>\<close>
  push_err :: "string \<Rightarrow> error option"         \<comment> \<open>\<open>PushToCache\<close>\<close>
  invalidate_err :: "string \<Rightarrow> error option"   \<comment> \<open>\<open>RemoveMetadata\<close>\<close>
  marshal :: "attrs \<Rightarrow> error + bytes"
  unmarshal :: "bytes \<Rightarrow> error + attrs"

subsection \<open>Strings\<close>

text \<open>\<open>strings.HasSuffix\<close>, \<open>strings.HasPrefix\<close> and \<open>strings.TrimPrefix\<close>.\<close>

definition HasSuffix :: "string \<Rightarrow> string \<Rightarrow> bool" where
  "HasSuffix s suffix =
     (length s \<ge> length suffix \<and> drop (length s - length suffix) s = suffix)"

definition HasPrefix :: "string \<Rightarrow> string \<Rightarrow> bool" where
  "HasPrefix s prefix = (length s \<ge> length prefix \<and> take (length prefix) s = prefix)"

definition TrimPrefix :: "string \<Rightarrow> string \<Rightarrow> string" where
  "TrimPrefix s prefix = (if HasPrefix s prefix then drop (length prefix) s else s)"

subsection \<open>Naming helpers\<close>

definition MetadataPath :: "string \<Rightarrow> string" where
  "MetadataPath path = path @ ''.mpk''"

definition LockfilePath :: "string \<Rightarrow> string" where
  "LockfilePath path = path @ ''.mlock''"

definition IsMetaFile :: "string \<Rightarrow> bool" where
  "IsMetaFile path = (HasSuffix path ''.mpk'' \<or> HasSuffix path ''.mpk.lock'')"

definition cacheKey :: "backend \<Rightarrow> string \<Rightarrow> string" where
  "cacheKey b path = TrimPrefix path (rootPath b @ ''/'')"

subsection \<open>The operating system\<close>

text \<open>
  \<open>os.ReadFile\<close>, \<open>os.Open\<close> followed by \<open>io.ReadAll\<close>, and \<open>os.Stat\<close>: a path that is
  not in \<open>files\<close> gives \<open>fs.ErrNotExist\<close>.
\<close>

definition os_ReadFile :: "env \<Rightarrow> world \<Rightarrow> string \<Rightarrow> error + bytes" where
  "os_ReadFile ev w p =
     (case readfile_err ev p of
        Some e \<Rightarrow> Inl e
      | None \<Rightarrow> (case files w p of None \<Rightarrow> Inl (ErrNotExist p) | Some d \<Rightarrow> Inr d))"

definition os_Open :: "env \<Rightarrow> world \<Rightarrow> string \<Rightarrow> error + bytes" where
  "os_Open ev w p =
     (case open_err ev p of
        Some e \<Rightarrow> Inl e
      | None \<Rightarrow> (case files w p of None \<Rightarrow> Inl (ErrNotExist p) | Some d \<Rightarrow> Inr d))"

definition io_ReadAll :: "env \<Rightarrow> string \<Rightarrow> bytes \<Rightarrow> error + bytes" where
  "io_ReadAll ev p d = (case readall_err ev p of Some e \<Rightarrow> Inl e | None \<Rightarrow> Inr d)"

definition os_Stat :: "env \<Rightarrow> world \<Rightarrow> string \<Rightarrow> error option" where
  "os_Stat ev w p =
     (case stat_err ev p of
        Some e \<Rightarrow> Some e
      | None \<Rightarrow> (case files w p of None \<Rightarrow> Some (ErrNotExist p) | Some d \<Rightarrow> None))"

text \<open>
  \<open>renameio.WriteFile\<close> replaces the file as a whole or leaves it as it was.
\<close>

definition renameio_WriteFile :: "env \<Rightarrow> world \<Rightarrow> string \<Rightarrow> bytes \<Rightarrow> error option \<times> world" where
  "renameio_WriteFile ev w p d =
     (case write_err ev p of
        Some e \<Rightarrow> (Some e, w)
      | None \<Rightarrow> (None, w\<lparr>files := (files w)(p \<mapsto> d)\<rparr>))"

definition os_Remove :: "env \<Rightarrow> world \<Rightarrow> string \<Rightarrow> error option \<times> world" where
  "os_Remove ev w p =
     (case remove_err ev p of
        Some e \<Rightarrow> (Some e, w)
      | None \<Rightarrow>
          (case files w p of
             None \<Rightarrow> (Some (ErrNotExist p), w)
           | Some d \<Rightarrow> (None, w\<lparr>files := (files w)(p := None)\<rparr>)))"

text \<open>\<open>os.Rename\<close>; renaming a file to its own name leaves it in place.\<close>

definition os_Rename :: "env \<Rightarrow> world \<Rightarrow> string \<Rightarrow> string \<Rightarrow> error option \<times> world" where
  "os_Rename ev w oldp newp =
     (case rename_err ev oldp of
        Some e \<Rightarrow> (Some e, w)
      | None \<Rightarrow>
          (case files w oldp of
             None \<Rightarrow> (Some (ErrNotExist oldp), w)
           | Some d \<Rightarrow>
               (None, if oldp = newp then w
                      else w\<lparr>files := ((files w)(oldp := None))(newp \<mapsto> d)\<rparr>)))"

subsection \<open>The lock file\<close>

text \<open>
  \<open>lockedfile.OpenFile(lockPath, os.O_RDWR|os.O_CREATE, 0600)\<close> returns the locked file,
  creating it empty when it is missing, or a nil file and the error. Waiting for another
  holder of the lock is outside this sequential model.
\<close>

definition lockedfile_OpenFile :: "env \<Rightarrow> world \<Rightarrow> string \<Rightarrow> string option \<times> error option \<times> world" where
  "lockedfile_OpenFile ev w p =
     (case lock_err ev p of
        Some e \<Rightarrow> (None, Some e, w)
      | None \<Rightarrow>
          (Some p, None,
           (case files w p of None \<Rightarrow> w\<lparr>files := (files w)(p \<mapsto> [])\<rparr> | Some d \<Rightarrow> w)))"

text \<open>
  The deferred \<open>func() { _ = f.Close() }()\<close>. \<open>Close\<close> of \<open>*lockedfile.File\<close> reads the
  \<open>closed\<close> field of its receiver; on the nil file that a failed \<open>OpenFile\<close> leaves in \<open>f\<close>
  this is a nil dereference, which panics. On an open file the error of \<open>Close\<close> is
  dropped and the value being returned stands.
\<close>

definition deferred_Close :: "string option \<Rightarrow> 'a \<Rightarrow> 'a outcome" where
  "deferred_Close f r = (case f of None \<Rightarrow> Panicked | Some h \<Rightarrow> Returned r)"

subsection \<open>The metadata cache\<close>

text \<open>
  Modelled from the spec: the cache (package \<open>pkg/storage/cache\<close>) is a collaborator with
  the contract \<open>pull(key) -> (map, found)\<close>, \<open>push(key, map) -> error\<close>,
  \<open>invalidate(key) -> error\<close>. \<open>PullFromCache\<close> returns an error when the key has no
  entry; a call that returns an error leaves the cache as it was.
\<close>

definition PullFromCache :: "env \<Rightarrow> world \<Rightarrow> string \<Rightarrow> error + attrs" where
  "PullFromCache ev w k =
     (case pull_err ev k of
        Some e \<Rightarrow> Inl e
      | None \<Rightarrow> (case cache w k of None \<Rightarrow> Inl ErrCacheMiss | Some m \<Rightarrow> Inr m))"

definition PushToCache :: "env \<Rightarrow> world \<Rightarrow> string \<Rightarrow> attrs \<Rightarrow> error option \<times> world" where
  "PushToCache ev w k m =
     (case push_err ev k of
        Some e \<Rightarrow> (Some e, w)
      | None \<Rightarrow> (None, w\<lparr>cache := (cache w)(k \<mapsto> m)\<rparr>))"

definition RemoveMetadata :: "env \<Rightarrow> world \<Rightarrow> string \<Rightarrow> error option \<times> world" where
  "RemoveMetadata ev w k =
     (case invalidate_err ev k of
        Some e \<Rightarrow> (Some e, w)
      | None \<Rightarrow> (None, w\<lparr>cache := (cache w)(k := None)\<rparr>))"

subsection \<open>Writing: saveAttributes\<close>

text \<open>The loop \<open>for _, key := range deleteAttribs { delete(attribs, key) }\<close>.\<close>

fun delete_keys :: "attrs \<Rightarrow> string list \<Rightarrow> attrs" where
  "delete_keys attribs [] = attribs"
| "delete_keys attribs (key # keys) = delete_keys (attribs(key := None)) keys"

text \<open>
  "prepare metadata": every entry of \<open>setAttribs\<close> is stored over \<open>attribs\<close>, then the
  keys of \<open>deleteAttribs\<close> are deleted.
\<close>

definition prepare_metadata :: "attrs \<Rightarrow> attrs \<Rightarrow> string list \<Rightarrow> attrs" where
  "prepare_metadata attribs setAttribs deleteAttribs =
     delete_keys (attribs ++ setAttribs) deleteAttribs"

text \<open>"Read current state": the \<open>switch\<close> on the result of \<open>os.ReadFile(metaPath)\<close>.\<close>

definition read_current_state :: "env \<Rightarrow> world \<Rightarrow> string \<Rightarrow> error + attrs" where
  "read_current_state ev w metaPath =
     (case os_ReadFile ev w metaPath of
        Inl e \<Rightarrow> (if \<not> IsNotExist e then Inl e else Inr Map.empty)
      | Inr msgBytes \<Rightarrow>
          (if length msgBytes = 0 then Inl ErrEmptyMetadata
           else unmarshal ev msgBytes))"

text \<open>
  The body of \<open>saveAttributes\<close> from "Invalidate cache early" on. The error of
  \<open>RemoveMetadata\<close> is assigned to \<open>_\<close>.
\<close>

definition save_unlocked :: "env \<Rightarrow> backend \<Rightarrow> string \<Rightarrow> attrs \<Rightarrow> string list \<Rightarrow> world
    \<Rightarrow> error option \<times> world" where
  "save_unlocked ev b path setAttribs deleteAttribs w =
     (let metaPath = MetadataPath path;
          w1 = snd (RemoveMetadata ev w (cacheKey b path))
      in case read_current_state ev w1 metaPath of
           Inl e \<Rightarrow> (Some e, w1)
         | Inr base \<Rightarrow>
             (let attribs = prepare_metadata base setAttribs deleteAttribs
              in case marshal ev attribs of
                   Inl e \<Rightarrow> (Some e, w1)
                 | Inr d \<Rightarrow>
                     (case renameio_WriteFile ev w1 metaPath d of
                        (Some e, w2) \<Rightarrow> (Some e, w2)
                      | (None, w2) \<Rightarrow> PushToCache ev w2 (cacheKey b path) attribs)))"

text \<open>
  \<open>saveAttributes\<close>: with \<open>acquireLock\<close> the lock file is opened and its \<open>Close\<close> is
  deferred before \<open>err\<close> is looked at; then \<open>if err != nil { return err }\<close>.
\<close>

definition saveAttributes :: "env \<Rightarrow> backend \<Rightarrow> string \<Rightarrow> attrs \<Rightarrow> string list \<Rightarrow> bool \<Rightarrow> world
    \<Rightarrow> error option outcome \<times> world" where
  "saveAttributes ev b path setAttribs deleteAttribs acquireLock w =
     (let lockPath = LockfilePath path;
          (f, err, w0) = (if acquireLock then lockedfile_OpenFile ev w lockPath
                          else (None, None, w));
          (r, w') = (case err of
                       Some e \<Rightarrow> (Some e, w0)
                     | None \<Rightarrow> save_unlocked ev b path setAttribs deleteAttribs w0)
      in (if acquireLock then deferred_Close f r else Returned r, w'))"

definition SetMultiple :: "env \<Rightarrow> backend \<Rightarrow> string \<Rightarrow> attrs \<Rightarrow> bool \<Rightarrow> world
    \<Rightarrow> error option outcome \<times> world" where
  "SetMultiple ev b path attribs acquireLock w =
     saveAttributes ev b path attribs [] acquireLock w"

definition Set :: "env \<Rightarrow> backend \<Rightarrow> string \<Rightarrow> string \<Rightarrow> bytes \<Rightarrow> world
    \<Rightarrow> error option outcome \<times> world" where
  "Set ev b path key val w = SetMultiple ev b path [key \<mapsto> val] True w"

definition Remove :: "env \<Rightarrow> backend \<Rightarrow> string \<Rightarrow> string \<Rightarrow> world
    \<Rightarrow> error option outcome \<times> world" where
  "Remove ev b path key w = saveAttributes ev b path Map.empty [key] True w"

subsection \<open>Reading: loadAttributes\<close>

text \<open>
  The end of \<open>loadAttributes\<close>, from \<open>if err != nil\<close> after \<open>io.ReadAll\<close> on: bytes are
  unmarshalled only when there are some, and the map is pushed to the cache.
\<close>

definition decode_and_push :: "env \<Rightarrow> backend \<Rightarrow> string \<Rightarrow> error + bytes \<Rightarrow> world
    \<Rightarrow> (error + attrs) \<times> world" where
  "decode_and_push ev b path rd w =
     (case rd of
        Inl e \<Rightarrow> (Inl e, w)
      | Inr msgBytes \<Rightarrow>
          (case (if length msgBytes > 0 then unmarshal ev msgBytes else Inr Map.empty) of
             Inl e \<Rightarrow> (Inl e, w)
           | Inr attribs \<Rightarrow>
               (case PushToCache ev w (cacheKey b path) attribs of
                  (Some e, w') \<Rightarrow> (Inl e, w')
                | (None, w') \<Rightarrow> (Inr attribs, w'))))"

text \<open>
  \<open>loadAttributes\<close> after the cache gave nothing. \<open>source\<close> is the reader of
  \<open>AllWithLockedSource\<close>, given by what \<open>io.ReadAll\<close> gets from it, or \<open>None\<close> for nil.
  When \<open>os.Open\<close> fails with another error than not-exist, \<open>io.ReadAll\<close> runs on the nil
  \<open>*os.File\<close>, whose \<open>Read\<close> returns \<open>os.ErrInvalid\<close>.
\<close>

definition load_uncached :: "env \<Rightarrow> backend \<Rightarrow> string \<Rightarrow> (error + bytes) option \<Rightarrow> world
    \<Rightarrow> (error + attrs) \<times> world" where
  "load_uncached ev b path source w =
     (let metaPath = MetadataPath path
      in case source of
           None \<Rightarrow>
             (case os_Open ev w metaPath of
                Inl e \<Rightarrow>
                  (if IsNotExist e then
                     (case os_Stat ev w path of
                        Some e' \<Rightarrow> (Inl e', w)
                      | None \<Rightarrow> (Inr Map.empty, w))
                   else decode_and_push ev b path (Inl ErrInvalid) w)
              | Inr d \<Rightarrow> decode_and_push ev b path (io_ReadAll ev metaPath d) w)
         | Some rd \<Rightarrow> decode_and_push ev b path rd w)"

text \<open>
  \<open>loadAttributes\<close>: the cached map when \<open>PullFromCache\<close> returns no error, whatever the
  error is otherwise.
\<close>

definition loadAttributes :: "env \<Rightarrow> backend \<Rightarrow> string \<Rightarrow> (error + bytes) option \<Rightarrow> world
    \<Rightarrow> (error + attrs) \<times> world" where
  "loadAttributes ev b path source w =
     (case PullFromCache ev w (cacheKey b path) of
        Inr attribs \<Rightarrow> (Inr attribs, w)
      | Inl miss \<Rightarrow> load_uncached ev b path source w)"

definition All_attrs :: "env \<Rightarrow> backend \<Rightarrow> string \<Rightarrow> world \<Rightarrow> (error + attrs) \<times> world" where
  "All_attrs ev b path w = loadAttributes ev b path None w"

definition AllWithLockedSource :: "env \<Rightarrow> backend \<Rightarrow> string \<Rightarrow> error + bytes \<Rightarrow> world
    \<Rightarrow> (error + attrs) \<times> world" where
  "AllWithLockedSource ev b path source w = loadAttributes ev b path (Some source) w"

definition Get :: "env \<Rightarrow> backend \<Rightarrow> string \<Rightarrow> string \<Rightarrow> world \<Rightarrow> (error + bytes) \<times> world" where
  "Get ev b path key w =
     (case loadAttributes ev b path None w of
        (Inl e, w') \<Rightarrow> (Inl e, w')
      | (Inr attribs, w') \<Rightarrow>
          (case attribs key of
             None \<Rightarrow> (Inl (ENOATTR path key), w')
           | Some val \<Rightarrow> (Inr val, w')))"

text \<open>
  \<open>strconv.ParseInt(s, 10, 64)\<close>: an optional sign, then \<open>ParseUint\<close>, which stops at the
  first byte that is not a digit with a syntax error and at the first overflow of 64 bits
  with a range error; then the range check of the signed result.
\<close>

definition digit_val :: "char \<Rightarrow> nat option" where
  "digit_val c =
     (let n = (of_char c :: nat) in if 48 \<le> n \<and> n \<le> 57 then Some (n - 48) else None)"

definition maxUint64 :: nat where
  "maxUint64 = 2 ^ 64 - 1"

fun parse_digits :: "nat \<Rightarrow> string \<Rightarrow> error + nat" where
  "parse_digits n [] = Inr n"
| "parse_digits n (c # cs) =
     (case digit_val c of
        None \<Rightarrow> Inl ErrSyntax
      | Some d \<Rightarrow>
          (if n \<ge> maxUint64 div 10 + 1 then Inl ErrRange
           else if n * 10 + d > maxUint64 then Inl ErrRange
           else parse_digits (n * 10 + d) cs))"

definition ParseUint :: "string \<Rightarrow> error + nat" where
  "ParseUint s = (if s = [] then Inl ErrSyntax else parse_digits 0 s)"

definition ParseInt :: "string \<Rightarrow> error + int" where
  "ParseInt s =
     (if s = [] then Inl ErrSyntax
      else
        (let neg = (hd s = CHR ''-'');
             s1 = (if hd s = CHR ''+'' \<or> hd s = CHR ''-'' then tl s else s)
         in case ParseUint s1 of
              Inl ErrSyntax \<Rightarrow> Inl ErrSyntax
            | r \<Rightarrow>
                (let un = (case r of Inr u \<Rightarrow> u | Inl e \<Rightarrow> maxUint64)
                 in if \<not> neg \<and> un \<ge> 2 ^ 63 then Inl ErrRange
                    else if neg \<and> un > 2 ^ 63 then Inl ErrRange
                    else Inr (if neg then - int un else int un))))"

definition GetInt64 :: "env \<Rightarrow> backend \<Rightarrow> string \<Rightarrow> string \<Rightarrow> world \<Rightarrow> (error + int) \<times> world" where
  "GetInt64 ev b path key w =
     (case loadAttributes ev b path None w of
        (Inl e, w') \<Rightarrow> (Inl e, w')
      | (Inr attribs, w') \<Rightarrow>
          (case attribs key of
             None \<Rightarrow> (Inl (ENOATTR path key), w')
           | Some val \<Rightarrow>
               (case ParseInt val of
                  Inl e \<Rightarrow> (Inl e, w')
                | Inr i \<Rightarrow> (Inr i, w'))))"

text \<open>
  \<open>List\<close> collects the keys by ranging over the map, in no fixed order: the result is
  given as the set of its elements.
\<close>

definition List :: "env \<Rightarrow> backend \<Rightarrow> string \<Rightarrow> world \<Rightarrow> (error + string set) \<times> world" where
  "List ev b path w =
     (case loadAttributes ev b path None w of
        (Inl e, w') \<Rightarrow> (Inl e, w')
      | (Inr attribs, w') \<Rightarrow> (Inr (dom attribs), w'))"

subsection \<open>Purge and Rename\<close>

definition Purge :: "env \<Rightarrow> backend \<Rightarrow> string \<Rightarrow> world \<Rightarrow> error option \<times> world" where
  "Purge ev b path w =
     (case RemoveMetadata ev w (cacheKey b path) of
        (Some e, w1) \<Rightarrow> (Some e, w1)
      | (None, w1) \<Rightarrow> os_Remove ev w1 (MetadataPath path))"

definition Rename :: "env \<Rightarrow> backend \<Rightarrow> string \<Rightarrow> string \<Rightarrow> world \<Rightarrow> error option \<times> world" where
  "Rename ev b oldPath newPath w =
     (case (case PullFromCache ev w (cacheKey b oldPath) of
              Inl e \<Rightarrow> (None, w)
            | Inr data \<Rightarrow> PushToCache ev w (cacheKey b newPath) data) of
        (Some e, w1) \<Rightarrow> (Some e, w1)
      | (None, w1) \<Rightarrow>
          (case RemoveMetadata ev w1 (cacheKey b oldPath) of
             (Some e, w2) \<Rightarrow> (Some e, w2)
           | (None, w2) \<Rightarrow> os_Rename ev w2 (MetadataPath oldPath) (MetadataPath newPath)))"

subsection \<open>Reading past the cache\<close>

text \<open>
  A read goes to the sidecar file when \<open>PullFromCache\<close> returns an error: the cache fails,
  or it has no entry under the key.
\<close>

definition cache_miss :: "env \<Rightarrow> world \<Rightarrow> string \<Rightarrow> bool" where
  "cache_miss ev w k = (pull_err ev k \<noteq> None \<or> cache w k = None)"

subsection \<open>A store for the examples\<close>

text \<open>
  A backend rooted at \<open>/a\<close>, an environment in which no call fails, and three states of the
  node \<open>/a/f\<close>. The codec of the examples knows the empty map and the maps that give
  \<open>user.x\<close> the value \<open>0\<close> or \<open>1\<close>, in their messagepack encoding (\<open>fixmap\<close>, \<open>fixstr\<close>,
  \<open>bin 8\<close>).
\<close>

definition enc_x :: "bytes \<Rightarrow> bytes" where
  "enc_x v = [CHR 0x81, CHR 0xA6] @ ''user.x'' @ [CHR 0xC4, CHR 0x01] @ v"

definition no_faults :: env where
  "no_faults =
     \<lparr>lock_err = (\<lambda>p. None), readfile_err = (\<lambda>p. None), open_err = (\<lambda>p. None),
      readall_err = (\<lambda>p. None), stat_err = (\<lambda>p. None), write_err = (\<lambda>p. None),
      remove_err = (\<lambda>p. None), rename_err = (\<lambda>p. None), pull_err = (\<lambda>k. None),
      push_err = (\<lambda>k. None), invalidate_err = (\<lambda>k. None),
      marshal = (\<lambda>m. if m = Map.empty then Inr [CHR 0x80]
                      else if m = [''user.x'' \<mapsto> ''0''] then Inr (enc_x ''0'')
                      else if m = [''user.x'' \<mapsto> ''1''] then Inr (enc_x ''1'')
                      else Inl (ErrOther 0)),
      unmarshal = (\<lambda>d. if d = [CHR 0x80] then Inr Map.empty
                        else if d = enc_x ''0'' then Inr [''user.x'' \<mapsto> ''0'']
                        else if d = enc_x ''1'' then Inr [''user.x'' \<mapsto> ''1'']
                        else Inl (ErrOther 0))\<rparr>"

definition store :: backend where
  "store = \<lparr>rootPath = ''/a''\<rparr>"

text \<open>The node without a sidecar file, and the node with a zero-length sidecar file.\<close>

definition node_only :: world where
  "node_only = \<lparr>files = [''/a/f'' \<mapsto> ''data''], cache = Map.empty\<rparr>"

definition empty_sidecar :: world where
  "empty_sidecar =
     \<lparr>files = [''/a/f'' \<mapsto> ''data'', ''/a/f.mpk'' \<mapsto> []], cache = Map.empty\<rparr>"

text \<open>
  The node after \<open>user.x\<close> was set to \<open>0\<close>: the sidecar file holds the encoded map and the
  cache holds the map under the key of the node.
\<close>

definition saved_x0 :: world where
  "saved_x0 =
     \<lparr>files = [''/a/f'' \<mapsto> ''data'', ''/a/f.mpk'' \<mapsto> enc_x ''0''],
      cache = [''f'' \<mapsto> [''user.x'' \<mapsto> ''0'']]\<rparr>"

text \<open>
  Environments in which the cache fails: the push only, the invalidation only, both of
  them, every call, and the read only; and one in which the lock file cannot be opened.
\<close>

definition push_refused :: env where
  "push_refused = no_faults\<lparr>push_err := (\<lambda>k. Some (ErrOther 5))\<rparr>"

definition invalidate_refused :: env where
  "invalidate_refused = no_faults\<lparr>invalidate_err := (\<lambda>k. Some (ErrOther 6))\<rparr>"

definition cache_unwritable :: env where
  "cache_unwritable =
     no_faults\<lparr>invalidate_err := (\<lambda>k. Some (ErrOther 6)), push_err := (\<lambda>k. Some (ErrOther 5))\<rparr>"

definition cache_down :: env where
  "cache_down =
     no_faults\<lparr>pull_err := (\<lambda>k. Some (ErrOther 4)), push_err := (\<lambda>k. Some (ErrOther 5)),
       invalidate_err := (\<lambda>k. Some (ErrOther 6))\<rparr>"

definition pull_refused :: env where
  "pull_refused = no_faults\<lparr>pull_err := (\<lambda>k. Some (ErrOther 4))\<rparr>"

definition lock_denied :: env where
  "lock_denied = no_faults\<lparr>lock_err := (\<lambda>p. Some (ErrOther 13))\<rparr>"

section \<open>Properties\<close>

subsection \<open>Helper lemmas\<close>

lemma HasSuffix_append: "HasSuffix (p @ s) s"
  by (simp add: HasSuffix_def)

lemma mlock_no_mpk: "\<not> HasSuffix (p @ ''.mlock'') ''.mpk''"
  by (simp add: HasSuffix_def)

lemma mlock_no_mpk_lock: "\<not> HasSuffix (p @ ''.mlock'') ''.mpk.lock''"
proof
  assume "HasSuffix (p @ ''.mlock'') ''.mpk.lock''"
  then have len: "3 \<le> length p"
    and eq: "drop (length p - 3) p @ ''.mlock'' = ''.mp'' @ ''k.lock''"
    by (simp_all add: HasSuffix_def)
  from len have "length (drop (length p - 3) p) = length ''.mp''" by simp
  with eq have "''.mlock'' = ''k.lock''" by (metis append_eq_append_conv)
  then show False by simp
qed

lemma cacheKey_store: "cacheKey store ''/a/f'' = ''f''"
  by (simp add: cacheKey_def TrimPrefix_def HasPrefix_def store_def)

lemma cache_miss_pull: "cache_miss ev w k \<Longrightarrow> \<exists>e. PullFromCache ev w k = Inl e"
  by (auto simp: cache_miss_def PullFromCache_def split: option.splits)

lemma load_missing_sidecar:
  assumes "cache_miss ev w (cacheKey b path)"
      and "files w (MetadataPath path) = None"
      and "open_err ev (MetadataPath path) = None"
  shows "loadAttributes ev b path None w =
           (case os_Stat ev w path of Some e \<Rightarrow> (Inl e, w) | None \<Rightarrow> (Inr Map.empty, w))"
  using cache_miss_pull[OF assms(1)] assms(2,3)
  by (auto simp: loadAttributes_def load_uncached_def os_Open_def)

lemma load_existing_sidecar:
  assumes "cache_miss ev w (cacheKey b path)"
      and "files w (MetadataPath path) = Some d"
      and "open_err ev (MetadataPath path) = None"
      and "readall_err ev (MetadataPath path) = None"
  shows "loadAttributes ev b path None w = decode_and_push ev b path (Inr d) w"
  using cache_miss_pull[OF assms(1)] assms(2-4)
  by (auto simp: loadAttributes_def load_uncached_def os_Open_def io_ReadAll_def)

lemma cacheKey_store_g: "cacheKey store ''/a/g'' = ''g''"
  by (simp add: cacheKey_def TrimPrefix_def HasPrefix_def store_def)

lemma os_Rename_cache:
  "fst (os_Rename ev (w\<lparr>cache := c\<rparr>) p q) = fst (os_Rename ev w p q)"
  "files (snd (os_Rename ev (w\<lparr>cache := c\<rparr>) p q)) = files (snd (os_Rename ev w p q))"
  by (simp_all add: os_Rename_def split: option.splits)

lemma RemoveMetadata_files: "files (snd (RemoveMetadata ev w k)) = files w"
  by (simp add: RemoveMetadata_def split: option.splits)

lemma Rename_pull_failed:
  assumes "cache_miss ev w (cacheKey b oldPath)"
  shows "Rename ev b oldPath newPath w =
           (case RemoveMetadata ev w (cacheKey b oldPath) of
              (Some e, w2) \<Rightarrow> (Some e, w2)
            | (None, w2) \<Rightarrow> os_Rename ev w2 (MetadataPath oldPath) (MetadataPath newPath))"
  using cache_miss_pull[OF assms] by (auto simp: Rename_def)

lemma Rename_push_failed:
  assumes "\<not> cache_miss ev w (cacheKey b oldPath)"
      and "push_err ev (cacheKey b newPath) = Some e"
  shows "Rename ev b oldPath newPath w = (Some e, w)"
  using assms
  by (auto simp: Rename_def cache_miss_def PullFromCache_def PushToCache_def split: option.splits)

lemma Rename_invalidate_failed:
  assumes "invalidate_err ev (cacheKey b oldPath) = Some e"
  shows "fst (Rename ev b oldPath newPath w) \<noteq> None
       \<and> files (snd (Rename ev b oldPath newPath w)) = files w"
  using assms
  by (auto simp: Rename_def PullFromCache_def PushToCache_def RemoveMetadata_def
      split: option.splits sum.splits prod.splits)

lemma Rename_proceeds:
  assumes "invalidate_err ev (cacheKey b oldPath) = None"
      and "cache_miss ev w (cacheKey b oldPath) \<or> push_err ev (cacheKey b newPath) = None"
  shows "fst (Rename ev b oldPath newPath w)
           = fst (os_Rename ev w (MetadataPath oldPath) (MetadataPath newPath))
       \<and> files (snd (Rename ev b oldPath newPath w))
           = files (snd (os_Rename ev w (MetadataPath oldPath) (MetadataPath newPath)))"
proof (cases "PullFromCache ev w (cacheKey b oldPath)")
  case (Inl e)
  then show ?thesis using assms(1)
    by (simp add: Rename_def RemoveMetadata_def os_Rename_cache)
next
  case (Inr data)
  then have "push_err ev (cacheKey b newPath) = None"
    using assms(2) by (auto simp: cache_miss_def PullFromCache_def split: option.splits)
  with Inr show ?thesis using assms(1)
    by (simp add: Rename_def RemoveMetadata_def PushToCache_def os_Rename_cache)
qed

lemma lock_sidecar_distinct: "LockfilePath path \<noteq> MetadataPath path"
  by (simp add: LockfilePath_def MetadataPath_def)

lemma delete_keys_apply: "delete_keys m ks k = (if k \<in> set ks then None else m k)"
  by (induction ks arbitrary: m) auto

lemma prepare_metadata_empty:
  "prepare_metadata Map.empty s ks k = (if k \<in> set ks then None else s k)"
  by (simp add: prepare_metadata_def delete_keys_apply)

lemma saveAttributes_locked:
  assumes "acquireLock \<longrightarrow> lock_err ev (LockfilePath path) = None"
  shows "\<exists>w0. cache w0 = cache w \<and> files w0 (MetadataPath path) = files w (MetadataPath path)
       \<and> saveAttributes ev b path s d acquireLock w
           = (Returned (fst (save_unlocked ev b path s d w0)), snd (save_unlocked ev b path s d w0))"
proof (cases acquireLock)
  case False
  then have "saveAttributes ev b path s d acquireLock w
      = (Returned (fst (save_unlocked ev b path s d w)), snd (save_unlocked ev b path s d w))"
    by (simp add: saveAttributes_def split: prod.splits)
  then show ?thesis by blast
next
  case True
  let ?w0 = "case files w (LockfilePath path) of
               None \<Rightarrow> w\<lparr>files := (files w)(LockfilePath path \<mapsto> [])\<rparr> | Some d \<Rightarrow> w"
  have "cache ?w0 = cache w" and "files ?w0 (MetadataPath path) = files w (MetadataPath path)"
    using lock_sidecar_distinct[of path] by (simp_all split: option.splits)
  moreover have "saveAttributes ev b path s d acquireLock w
           = (Returned (fst (save_unlocked ev b path s d ?w0)), snd (save_unlocked ev b path s d ?w0))"
    using True assms
    by (simp add: saveAttributes_def lockedfile_OpenFile_def deferred_Close_def Let_def
        case_prod_beta)
  ultimately show ?thesis by blast
qed

lemma read_current_state_files:
  "files w' p = files w p \<Longrightarrow> read_current_state ev w' p = read_current_state ev w p"
  by (simp add: read_current_state_def os_ReadFile_def split: option.splits)

lemma save_unlocked_empty_file:
  assumes "files w (MetadataPath path) = Some []"
      and "readfile_err ev (MetadataPath path) = None"
  shows "save_unlocked ev b path s d w
           = (Some ErrEmptyMetadata, snd (RemoveMetadata ev w (cacheKey b path)))"
  using assms
  by (simp add: save_unlocked_def read_current_state_def os_ReadFile_def RemoveMetadata_files)

lemma read_current_state_missing:
  assumes "files w p = None" and "readfile_err ev p = None"
  shows "read_current_state ev w p = Inr Map.empty"
  using assms by (simp add: read_current_state_def os_ReadFile_def)

lemma save_unlocked_base:
  assumes "read_current_state ev w (MetadataPath path) = Inr base"
  shows "save_unlocked ev b path s d w =
     (let w1 = snd (RemoveMetadata ev w (cacheKey b path));
          attribs = prepare_metadata base s d
      in case marshal ev attribs of
           Inl e \<Rightarrow> (Some e, w1)
         | Inr bs \<Rightarrow>
             (case write_err ev (MetadataPath path) of
                Some e \<Rightarrow> (Some e, w1)
              | None \<Rightarrow>
                  PushToCache ev (w1\<lparr>files := (files w1)(MetadataPath path \<mapsto> bs)\<rparr>)
                    (cacheKey b path) attribs))"
proof -
  have "read_current_state ev (snd (RemoveMetadata ev w (cacheKey b path))) (MetadataPath path)
      = Inr base"
    using assms read_current_state_files[of "snd (RemoveMetadata ev w (cacheKey b path))"]
    by (simp add: RemoveMetadata_files)
  then show ?thesis
    by (simp add: save_unlocked_def Let_def renameio_WriteFile_def
        split: sum.splits option.splits)
qed

lemma RemoveMetadata_cache:
  "cache (snd (RemoveMetadata ev w k)) = cache w
   \<or> cache (snd (RemoveMetadata ev w k)) = (cache w)(k := None)"
  by (simp add: RemoveMetadata_def split: option.splits)

lemma singleton_map_eq: "([k \<mapsto> a] = [k \<mapsto> b]) = (a = b)"
  by (metis map_upd_eqD1)

lemma marshal_x1: "marshal no_faults [''user.x'' \<mapsto> ''1''] = Inr (enc_x ''1'')"
  by (simp add: no_faults_def singleton_map_eq)

lemma unmarshal_x1: "unmarshal no_faults (enc_x ''1'') = Inr [''user.x'' \<mapsto> ''1'']"
  by (simp add: no_faults_def enc_x_def)

lemma prepare_set_x1: "prepare_metadata Map.empty [''user.x'' \<mapsto> ''1''] [] = [''user.x'' \<mapsto> ''1'']"
  by (simp add: prepare_metadata_def)

lemma no_faults_None:
  "lock_err no_faults p = None" "readfile_err no_faults p = None" "open_err no_faults p = None"
  "readall_err no_faults p = None" "stat_err no_faults p = None" "write_err no_faults p = None"
  "pull_err no_faults p = None" "push_err no_faults p = None" "invalidate_err no_faults p = None"
  by (simp_all add: no_faults_def)

lemma saveAttributes_lock_failed:
  assumes "lock_err ev (LockfilePath path) = Some e"
  shows "saveAttributes ev b path s d True w = (Panicked, w)"
  using assms
  by (simp add: saveAttributes_def lockedfile_OpenFile_def deferred_Close_def)

lemma save_unlocked_success:
  assumes "save_unlocked ev b path s d w = (None, w1)"
  shows "\<exists>base bs. read_current_state ev w (MetadataPath path) = Inr base
           \<and> marshal ev (prepare_metadata base s d) = Inr bs
           \<and> files w1 (MetadataPath path) = Some bs
           \<and> cache w1 (cacheKey b path) = Some (prepare_metadata base s d)"
proof (cases "read_current_state ev w (MetadataPath path)")
  case (Inl e)
  then have "read_current_state ev (snd (RemoveMetadata ev w (cacheKey b path))) (MetadataPath path)
      = Inl e"
    using read_current_state_files[of "snd (RemoveMetadata ev w (cacheKey b path))"]
    by (simp add: RemoveMetadata_files)
  then show ?thesis using assms by (simp add: save_unlocked_def)
next
  case (Inr base)
  show ?thesis using assms
    by (auto simp: save_unlocked_base[OF Inr] Inr Let_def PushToCache_def
        split: sum.splits option.splits)
qed

lemma read_current_state_missing_base:
  assumes "files w p = None" and "read_current_state ev w p = Inr base"
  shows "base = Map.empty"
  using assms
  by (auto simp: read_current_state_def os_ReadFile_def split: option.splits if_splits)

lemma prepare_metadata_set_only: "prepare_metadata Map.empty M [] = M"
  by (simp add: prepare_metadata_def)

lemma load_from_sidecar:
  assumes "files w (MetadataPath path) = Some d" and "d \<noteq> []"
      and "unmarshal ev d = Inr m"
      and "cache_miss ev w (cacheKey b path)"
      and "open_err ev (MetadataPath path) = None"
      and "readall_err ev (MetadataPath path) = None"
      and "push_err ev (cacheKey b path) = None"
  shows "fst (loadAttributes ev b path None w) = Inr m"
  using assms(2,3,7)
  by (simp add: load_existing_sidecar[OF assms(4,1,5,6)] decode_and_push_def PushToCache_def)

lemma load_from_cache:
  assumes "\<not> cache_miss ev w (cacheKey b path)" and "cache w (cacheKey b path) = Some m"
  shows "loadAttributes ev b path src w = (Inr m, w)"
  using assms by (auto simp: loadAttributes_def PullFromCache_def cache_miss_def)

lemma unmarshal_x0: "unmarshal no_faults (enc_x ''0'') = Inr [''user.x'' \<mapsto> ''0'']"
  by (simp add: no_faults_def enc_x_def)

lemma prepare_x0_x1:
  "prepare_metadata [''user.x'' \<mapsto> ''0''] [''user.x'' \<mapsto> ''1''] [] = [''user.x'' \<mapsto> ''1'']"
  by (simp add: prepare_metadata_def)

lemma enc_x_nonempty: "enc_x v \<noteq> []"
  by (simp add: enc_x_def)

lemma save_unlocked_invalidate_discarded:
  assumes "files w' = files w"
  shows "fst (save_unlocked (ev\<lparr>invalidate_err := f\<rparr>) b path s d w')
           = fst (save_unlocked ev b path s d w)
       \<and> files (snd (save_unlocked (ev\<lparr>invalidate_err := f\<rparr>) b path s d w'))
           = files (snd (save_unlocked ev b path s d w))"
  using assms
  by (auto simp: save_unlocked_def RemoveMetadata_def read_current_state_def os_ReadFile_def
      renameio_WriteFile_def PushToCache_def Let_def
      split: option.splits sum.splits if_splits)

lemma saveAttributes_invalidate_discarded:
  "fst (saveAttributes (ev\<lparr>invalidate_err := f\<rparr>) b path s d l w)
     = fst (saveAttributes ev b path s d l w)
   \<and> files (snd (saveAttributes (ev\<lparr>invalidate_err := f\<rparr>) b path s d l w))
     = files (snd (saveAttributes ev b path s d l w))"
proof (cases "l \<and> lock_err ev (LockfilePath path) \<noteq> None")
  case True
  then show ?thesis
    by (auto simp: saveAttributes_def lockedfile_OpenFile_def deferred_Close_def)
next
  case False
  then show ?thesis
    using save_unlocked_invalidate_discarded[OF refl, where ev = ev and f = f and b = b
        and path = path and s = s and d = d]
    by (auto simp: saveAttributes_def lockedfile_OpenFile_def deferred_Close_def Let_def
        case_prod_beta split: option.splits)
qed

lemma save_unlocked_push_failed:
  assumes "push_err ev (cacheKey b path) = Some e"
  shows "fst (save_unlocked ev b path s d w) \<noteq> None"
  using assms
  by (auto simp: save_unlocked_def renameio_WriteFile_def PushToCache_def Let_def
      split: option.splits sum.splits prod.splits)

lemma saveAttributes_push_failed:
  assumes "push_err ev (cacheKey b path) = Some e"
  shows "fst (saveAttributes ev b path s d l w) \<noteq> Returned None"
  using save_unlocked_push_failed[OF assms]
  by (auto simp: saveAttributes_def lockedfile_OpenFile_def deferred_Close_def Let_def
      case_prod_beta split: option.splits)

lemma load_pull_failed:
  assumes "pull_err ev (cacheKey b path) = Some e"
  shows "loadAttributes ev b path src w = load_uncached ev b path src w"
  using assms by (simp add: loadAttributes_def PullFromCache_def)

lemma load_push_failed:
  assumes "push_err ev (cacheKey b path) = Some e"
      and "cache_miss ev w (cacheKey b path)"
      and "files w (MetadataPath path) = Some d"
      and "open_err ev (MetadataPath path) = None"
      and "readall_err ev (MetadataPath path) = None"
      and "d \<noteq> [] \<longrightarrow> unmarshal ev d = Inr m"
  shows "All_attrs ev b path w = (Inl e, w)"
  using assms(1,6)
  by (auto simp: All_attrs_def load_existing_sidecar[OF assms(2-5)] decode_and_push_def
      PushToCache_def)

lemma Purge_invalidate_failed:
  assumes "invalidate_err ev (cacheKey b path) = Some e"
  shows "Purge ev b path w = (Some e, w)"
  using assms by (simp add: Purge_def RemoveMetadata_def)

lemma Rename_pull_err:
  assumes "pull_err ev (cacheKey b oldPath) = Some e"
  shows "Rename ev b oldPath newPath w =
           (case RemoveMetadata ev w (cacheKey b oldPath) of
              (Some e, w2) \<Rightarrow> (Some e, w2)
            | (None, w2) \<Rightarrow> os_Rename ev w2 (MetadataPath oldPath) (MetadataPath newPath))"
  using assms by (intro Rename_pull_failed) (simp add: cache_miss_def)

subsection \<open>The path classifier\<close>

text \<open>
  C9. The claim: for every object path \<open>p\<close>, \<open>IsMetaFile\<close> is true on \<open>MetadataPath p\<close> and
  on \<open>LockfilePath p\<close>. \<open>IsMetaFile\<close> tests the suffixes \<open>.mpk\<close> and \<open>.mpk.lock\<close>, while
  \<open>LockfilePath\<close> appends \<open>.mlock\<close>: the sidecar path is recognised, the lock path of no
  object is.
\<close>

theorem IsMetaFile_misses_lock_file:
  "IsMetaFile (MetadataPath p) \<and> \<not> IsMetaFile (LockfilePath p)"
  by (simp add: IsMetaFile_def MetadataPath_def LockfilePath_def HasSuffix_append
      mlock_no_mpk mlock_no_mpk_lock)

subsection \<open>A lock that cannot be acquired\<close>

text \<open>
  C4. The claim: when acquiring the lock file fails in a mutation with \<open>acquireLock\<close>, the
  failure is returned as an error and the sidecar file is not modified. The file system
  is indeed left as it was, but the call does not return: \<open>Close\<close> was deferred on the nil
  file before \<open>err\<close> was checked, and it panics when \<open>return err\<close> runs the deferred
  function. Here \<open>Set\<close> on \<open>/a/f\<close> with a lock file that cannot be opened.
\<close>

theorem lock_failure_panics:
  "Set lock_denied store ''/a/f'' ''user.x'' ''1'' node_only = (Panicked, node_only)"
  by (simp add: Set_def SetMultiple_def saveAttributes_def lockedfile_OpenFile_def
      deferred_Close_def lock_denied_def)

subsection \<open>Reading a node without a sidecar file\<close>

text \<open>
  C6, as the claim states it: a read of a path without a sidecar file returns the empty
  map and pushes it into the cache. On the node \<open>/a/f\<close>, which exists and has no sidecar
  file, \<open>All\<close> returns the empty map and the cache still has no entry for the node:
  \<open>loadAttributes\<close> returns before it reaches \<open>PushToCache\<close>.
\<close>

theorem missing_sidecar_read_counterexample:
  "fst (All_attrs no_faults store ''/a/f'' node_only) = Inr Map.empty
   \<and> cache (snd (All_attrs no_faults store ''/a/f'' node_only)) (cacheKey store ''/a/f'') = None"
  by (simp add: All_attrs_def loadAttributes_def load_uncached_def PullFromCache_def os_Open_def os_Stat_def
      MetadataPath_def no_faults_def node_only_def)

text \<open>
  C6, amended: a read that is not served by the cache, on a path whose sidecar file does
  not exist, fails with the not-exist error of the node when the node does not exist
  either; otherwise it returns the empty attribute map and leaves files and cache as they
  were, so nothing is pushed into the cache. (\<open>os.Open\<close> and \<open>os.Stat\<close> themselves do not
  fail for another reason.)
\<close>

theorem missing_sidecar_read:
  assumes "cache_miss ev w (cacheKey b path)"
      and "files w (MetadataPath path) = None"
      and "open_err ev (MetadataPath path) = None"
      and "stat_err ev path = None"
  shows "(files w path = None \<longrightarrow> All_attrs ev b path w = (Inl (ErrNotExist path), w))
       \<and> (files w path \<noteq> None \<longrightarrow> All_attrs ev b path w = (Inr Map.empty, w))"
  using assms(4) by (auto simp: All_attrs_def load_missing_sidecar[OF assms(1-3)] os_Stat_def)

theorem missing_sidecar_read_witness:
  "All_attrs no_faults store ''/a/f'' node_only = (Inr Map.empty, node_only)
   \<and> All_attrs no_faults store ''/a/g'' node_only = (Inl (ErrNotExist ''/a/g''), node_only)"
proof -
  have m: "cache_miss no_faults node_only k" for k
    by (simp add: cache_miss_def node_only_def)
  have f: "files node_only (MetadataPath ''/a/f'') = None"
    and g: "files node_only (MetadataPath ''/a/g'') = None"
    by (simp_all add: node_only_def MetadataPath_def)
  have o: "open_err no_faults p = None" and s: "stat_err no_faults p = None" for p
    by (simp_all add: no_faults_def)
  show ?thesis
    using missing_sidecar_read [OF m f o s, of store] missing_sidecar_read [OF m g o s, of store]
    by (simp add: node_only_def)
qed

subsection \<open>Reading a zero-length sidecar file\<close>

text \<open>
  C3, as the claim states it: every read of a path whose sidecar file is zero-length
  returns a corruption error. On the node \<open>/a/f\<close> with an empty \<open>/a/f.mpk\<close>, \<open>All\<close> returns
  the empty attribute map.
\<close>

theorem empty_sidecar_read_counterexample:
  "fst (All_attrs no_faults store ''/a/f'' empty_sidecar) = Inr Map.empty"
  by (simp add: All_attrs_def loadAttributes_def load_uncached_def PullFromCache_def os_Open_def io_ReadAll_def
      decode_and_push_def PushToCache_def MetadataPath_def no_faults_def empty_sidecar_def)

text \<open>
  C3, amended: on a path whose sidecar file exists and is zero-length, a read that is not
  served by the cache, and whose calls to open and read the file and to push to the
  cache do not fail, treats the file as the empty attribute map: \<open>All\<close> returns the empty
  map, \<open>List\<close> no key, \<open>Get\<close> and \<open>GetInt64\<close> the error that the attribute is not set, and the
  empty map is pushed into the cache. No read returns a corruption error.
\<close>

theorem empty_sidecar_read:
  assumes "cache_miss ev w (cacheKey b path)"
      and "files w (MetadataPath path) = Some []"
      and "open_err ev (MetadataPath path) = None"
      and "readall_err ev (MetadataPath path) = None"
      and "push_err ev (cacheKey b path) = None"
  shows "All_attrs ev b path w
           = (Inr Map.empty, w\<lparr>cache := (cache w)(cacheKey b path \<mapsto> Map.empty)\<rparr>)
       \<and> List ev b path w
           = (Inr {}, w\<lparr>cache := (cache w)(cacheKey b path \<mapsto> Map.empty)\<rparr>)
       \<and> Get ev b path key w
           = (Inl (ENOATTR path key), w\<lparr>cache := (cache w)(cacheKey b path \<mapsto> Map.empty)\<rparr>)
       \<and> GetInt64 ev b path key w
           = (Inl (ENOATTR path key), w\<lparr>cache := (cache w)(cacheKey b path \<mapsto> Map.empty)\<rparr>)"
  using assms(5)
  by (simp add: All_attrs_def List_def Get_def GetInt64_def load_existing_sidecar[OF assms(1-4)]
      decode_and_push_def PushToCache_def)

theorem empty_sidecar_read_witness:
  "All_attrs no_faults store ''/a/f'' empty_sidecar
     = (Inr Map.empty, empty_sidecar\<lparr>cache := [''f'' \<mapsto> Map.empty]\<rparr>)
   \<and> Get no_faults store ''/a/f'' ''user.x'' empty_sidecar
     = (Inl (ENOATTR ''/a/f'' ''user.x''), empty_sidecar\<lparr>cache := [''f'' \<mapsto> Map.empty]\<rparr>)"
proof -
  have m: "cache_miss no_faults empty_sidecar (cacheKey store ''/a/f'')"
    by (simp add: cache_miss_def empty_sidecar_def)
  have f: "files empty_sidecar (MetadataPath ''/a/f'') = Some []"
    by (simp add: empty_sidecar_def MetadataPath_def)
  have o: "open_err no_faults p = None" and r: "readall_err no_faults p = None"
    and p: "push_err no_faults p = None" for p
    by (simp_all add: no_faults_def)
  show ?thesis
    using empty_sidecar_read [OF m f o r p, of "''user.x''"]
    by (simp add: cacheKey_store empty_sidecar_def)
qed

subsection \<open>Rename\<close>

text \<open>
  C8, as the claim states it: every call to \<open>Rename\<close> renames the sidecar file. With the
  attributes of \<open>/a/f\<close> in the cache and a cache that refuses the push under the new key,
  \<open>Rename\<close> returns the error of the push and the sidecar file is still at the old
  metadata path, with none at the new one.
\<close>

theorem Rename_counterexample:
  "fst (Rename push_refused store ''/a/f'' ''/a/g'' saved_x0)
     = Some (ErrOther 5)
   \<and> files (snd (Rename push_refused store ''/a/f'' ''/a/g''
        saved_x0)) (MetadataPath ''/a/f'') = Some (enc_x ''0'')
   \<and> files (snd (Rename push_refused store ''/a/f'' ''/a/g''
        saved_x0)) (MetadataPath ''/a/g'') = None"
  by (simp add: Rename_def PullFromCache_def PushToCache_def cacheKey_store cacheKey_store_g
      MetadataPath_def push_refused_def no_faults_def saved_x0_def)

text \<open>
  C8, amended: \<open>Rename\<close> renames the sidecar file, with the result of \<open>os.Rename\<close> on
  the two metadata paths, whenever invalidating the old cache entry succeeds and the old
  entry either could not be read or was pushed under the new key. A failure to read the
  old entry is nothing to migrate, not an error, and does not prevent the rename. When
  the old entry was read and the push under the new key fails, that error is returned
  and nothing has changed; when invalidating the old entry fails, \<open>Rename\<close> returns an
  error and no file has been renamed.
\<close>

theorem Rename_sidecar:
  "(invalidate_err ev (cacheKey b oldPath) = None
      \<and> (cache_miss ev w (cacheKey b oldPath) \<or> push_err ev (cacheKey b newPath) = None)
     \<longrightarrow> fst (Rename ev b oldPath newPath w)
           = fst (os_Rename ev w (MetadataPath oldPath) (MetadataPath newPath))
       \<and> files (snd (Rename ev b oldPath newPath w))
           = files (snd (os_Rename ev w (MetadataPath oldPath) (MetadataPath newPath))))
   \<and> (\<not> cache_miss ev w (cacheKey b oldPath) \<and> push_err ev (cacheKey b newPath) = Some e
     \<longrightarrow> Rename ev b oldPath newPath w = (Some e, w))
   \<and> (invalidate_err ev (cacheKey b oldPath) = Some e
     \<longrightarrow> fst (Rename ev b oldPath newPath w) \<noteq> None
       \<and> files (snd (Rename ev b oldPath newPath w)) = files w)"
  using Rename_proceeds Rename_push_failed Rename_invalidate_failed by blast

theorem Rename_sidecar_witness:
  "fst (Rename pull_refused store ''/a/f'' ''/a/g'' saved_x0) = None
   \<and> files (snd (Rename pull_refused store ''/a/f'' ''/a/g'' saved_x0))
       = [''/a/f'' \<mapsto> ''data'', ''/a/g.mpk'' \<mapsto> enc_x ''0'']
   \<and> Rename push_refused store ''/a/f'' ''/a/g'' saved_x0 = (Some (ErrOther 5), saved_x0)
   \<and> files (snd (Rename invalidate_refused store ''/a/f'' ''/a/g'' saved_x0)) = files saved_x0"
proof -
  have pl: "invalidate_err pull_refused k = None" "cache_miss pull_refused w k"
    "rename_err pull_refused k = None" for k w
    by (simp_all add: pull_refused_def no_faults_def cache_miss_def)
  have ps: "invalidate_err push_refused k = None" "push_err push_refused k = Some (ErrOther 5)"
    "\<not> cache_miss push_refused saved_x0 (cacheKey store ''/a/f'')" for k
    by (simp_all add: push_refused_def no_faults_def cache_miss_def cacheKey_store saved_x0_def)
  have iv: "invalidate_err invalidate_refused k = Some (ErrOther 6)" for k
    by (simp add: invalidate_refused_def)
  have r: "os_Rename pull_refused saved_x0 (MetadataPath ''/a/f'') (MetadataPath ''/a/g'')
      = (None, saved_x0\<lparr>files := [''/a/f'' \<mapsto> ''data'', ''/a/g.mpk'' \<mapsto> enc_x ''0'']\<rparr>)"
    by (auto simp: os_Rename_def pl saved_x0_def MetadataPath_def)
  show ?thesis
    using Rename_sidecar [of pull_refused store "''/a/f''" saved_x0 "''/a/g''" "ErrOther 4"]
      Rename_sidecar [of push_refused store "''/a/f''" saved_x0 "''/a/g''" "ErrOther 5"]
      Rename_sidecar [of invalidate_refused store "''/a/f''" saved_x0 "''/a/g''" "ErrOther 6"]
    by (simp add: pl ps iv r)
qed

subsection \<open>The base map of a mutation\<close>

text \<open>
  C7. A mutation that gets to read the sidecar file (the lock, if asked for, is acquired,
  and \<open>os.ReadFile\<close> fails for no other reason than a missing file): when the sidecar
  file is missing, the merge starts from the empty map, so the map that is marshalled,
  written and pushed to the cache has exactly the entries of \<open>setAttribs\<close> whose keys are
  not in \<open>deleteAttribs\<close>; when the sidecar file exists and is zero-length,
  \<open>saveAttributes\<close> returns the error "encountered empty metadata file", the sidecar
  file is still zero-length, and the cache is as it was or has lost the entry of the
  node: it has gained nothing.
\<close>

theorem save_base_map:
  assumes "acquireLock \<longrightarrow> lock_err ev (LockfilePath path) = None"
      and "readfile_err ev (MetadataPath path) = None"
      and "saveAttributes ev b path setAttribs deleteAttribs acquireLock w = (r, w')"
  shows "(files w (MetadataPath path) = None \<longrightarrow>
           (\<forall>k. prepare_metadata Map.empty setAttribs deleteAttribs k
                  = (if k \<in> set deleteAttribs then None else setAttribs k))
           \<and> (case marshal ev (prepare_metadata Map.empty setAttribs deleteAttribs) of
                Inl e \<Rightarrow> r = Returned (Some e) \<and> files w' (MetadataPath path) = None
              | Inr d \<Rightarrow>
                  (case write_err ev (MetadataPath path) of
                     Some e \<Rightarrow> r = Returned (Some e) \<and> files w' (MetadataPath path) = None
                   | None \<Rightarrow>
                       files w' (MetadataPath path) = Some d
                       \<and> (case push_err ev (cacheKey b path) of
                            Some e \<Rightarrow> r = Returned (Some e)
                          | None \<Rightarrow>
                              r = Returned None
                              \<and> cache w' (cacheKey b path)
                                  = Some (prepare_metadata Map.empty setAttribs deleteAttribs)))))
       \<and> (files w (MetadataPath path) = Some [] \<longrightarrow>
           r = Returned (Some ErrEmptyMetadata)
           \<and> files w' (MetadataPath path) = Some []
           \<and> (cache w' = cache w \<or> cache w' = (cache w)(cacheKey b path := None)))"
proof -
  obtain w0 where c: "cache w0 = cache w"
    and f: "files w0 (MetadataPath path) = files w (MetadataPath path)"
    and s: "saveAttributes ev b path setAttribs deleteAttribs acquireLock w
           = (Returned (fst (save_unlocked ev b path setAttribs deleteAttribs w0)),
              snd (save_unlocked ev b path setAttribs deleteAttribs w0))"
    using saveAttributes_locked[OF assms(1)] by blast
  from s assms(3) have r: "r = Returned (fst (save_unlocked ev b path setAttribs deleteAttribs w0))"
    and w': "w' = snd (save_unlocked ev b path setAttribs deleteAttribs w0)" by simp_all
  have missing: ?thesis if m: "files w (MetadataPath path) = None"
  proof -
    have "read_current_state ev w0 (MetadataPath path) = Inr Map.empty"
      using read_current_state_missing[OF _ assms(2), of w0] f m by simp
    note u = save_unlocked_base[OF this, of b setAttribs deleteAttribs]
    show ?thesis using m f
      by (simp add: r w' u Let_def prepare_metadata_empty RemoveMetadata_files PushToCache_def
          split: sum.splits option.splits)
  qed
  have empty: ?thesis if e: "files w (MetadataPath path) = Some []"
  proof -
    have "files w0 (MetadataPath path) = Some []" using f e by simp
    note u = save_unlocked_empty_file[OF this assms(2), of b setAttribs deleteAttribs]
    show ?thesis using e f c RemoveMetadata_cache[of ev w0 "cacheKey b path"]
      by (simp add: r w' u RemoveMetadata_files)
  qed
  show ?thesis using missing empty by (cases "files w (MetadataPath path)") auto
qed

theorem save_base_map_witness:
  "fst (saveAttributes no_faults store ''/a/f'' [''user.x'' \<mapsto> ''1''] [] True node_only)
     = Returned None
   \<and> files (snd (saveAttributes no_faults store ''/a/f'' [''user.x'' \<mapsto> ''1''] [] True node_only))
       (MetadataPath ''/a/f'') = Some (enc_x ''1'')
   \<and> cache (snd (saveAttributes no_faults store ''/a/f'' [''user.x'' \<mapsto> ''1''] [] True node_only))
       (cacheKey store ''/a/f'') = Some [''user.x'' \<mapsto> ''1'']
   \<and> fst (saveAttributes no_faults store ''/a/f'' [''user.x'' \<mapsto> ''1''] [] True empty_sidecar)
     = Returned (Some ErrEmptyMetadata)
   \<and> files (snd (saveAttributes no_faults store ''/a/f'' [''user.x'' \<mapsto> ''1''] [] True
        empty_sidecar)) (MetadataPath ''/a/f'') = Some []"
proof -
  have l: "True \<longrightarrow> lock_err no_faults (LockfilePath ''/a/f'') = None"
    and rd: "readfile_err no_faults (MetadataPath ''/a/f'') = None"
    by (simp_all add: no_faults_None)
  have f: "files node_only (MetadataPath ''/a/f'') = None"
    "files empty_sidecar (MetadataPath ''/a/f'') = Some []"
    by (simp_all add: node_only_def empty_sidecar_def MetadataPath_def)
  show ?thesis
    using save_base_map [where b = store and setAttribs = "[''user.x'' \<mapsto> ''1'']"
        and deleteAttribs = "[]" and w = node_only, OF l rd surjective_pairing]
      save_base_map [where b = store and setAttribs = "[''user.x'' \<mapsto> ''1'']"
        and deleteAttribs = "[]" and w = empty_sidecar, OF l rd surjective_pairing]
    by (simp add: f prepare_set_x1 marshal_x1 no_faults_None)
qed

subsection \<open>Round trip\<close>

text \<open>
  C1. For a path without a sidecar file and every attribute map \<open>M\<close>: after a
  \<open>SetMultiple\<close> of \<open>M\<close> with \<open>acquireLock\<close> that returned nil, \<open>All\<close> returns exactly \<open>M\<close>,
  both when \<open>PullFromCache\<close> serves the read and when it returns an error and the map
  is decoded from the sidecar file. The codec is the one assumption: what \<open>Marshal\<close>
  gave for \<open>M\<close> is not empty and \<open>Unmarshal\<close> gives \<open>M\<close> back from it. The read itself
  is taken not to fail in opening and reading the file and in pushing to the cache.
\<close>

theorem SetMultiple_All_roundtrip:
  assumes "files w (MetadataPath path) = None"
      and "SetMultiple ev b path M True w = (Returned None, w1)"
      and "\<forall>d. marshal ev M = Inr d \<longrightarrow> d \<noteq> [] \<and> unmarshal ev' d = Inr M"
      and "open_err ev' (MetadataPath path) = None"
      and "readall_err ev' (MetadataPath path) = None"
      and "push_err ev' (cacheKey b path) = None"
  shows "fst (All_attrs ev' b path w1) = Inr M"
proof -
  have saved: "saveAttributes ev b path M [] True w = (Returned None, w1)"
    using assms(2) by (simp add: SetMultiple_def)
  have "lock_err ev (LockfilePath path) = None"
  proof (cases "lock_err ev (LockfilePath path)")
    case (Some e)
    from saveAttributes_lock_failed[OF this] saved show ?thesis by simp
  qed simp
  then obtain w0 where f: "files w0 (MetadataPath path) = files w (MetadataPath path)"
    and s: "saveAttributes ev b path M [] True w
           = (Returned (fst (save_unlocked ev b path M [] w0)), snd (save_unlocked ev b path M [] w0))"
    using saveAttributes_locked[of True ev path w b M "[]"] by blast
  from s saved have "save_unlocked ev b path M [] w0 = (None, w1)"
    by (simp add: prod_eq_iff)
  from save_unlocked_success[OF this] obtain base bs
    where rd: "read_current_state ev w0 (MetadataPath path) = Inr base"
      and m: "marshal ev (prepare_metadata base M []) = Inr bs"
      and sidecar: "files w1 (MetadataPath path) = Some bs"
      and cached: "cache w1 (cacheKey b path) = Some (prepare_metadata base M [])"
    by blast
  have "base = Map.empty"
    using read_current_state_missing_base[OF _ rd] f assms(1) by simp
  then have merged: "prepare_metadata base M [] = M"
    by (simp add: prepare_metadata_set_only)
  from m merged assms(3) have bs: "bs \<noteq> []" "unmarshal ev' bs = Inr M" by simp_all
  show ?thesis
  proof (cases "cache_miss ev' w1 (cacheKey b path)")
    case True
    from load_from_sidecar[OF sidecar bs True assms(4-6)] show ?thesis
      by (simp add: All_attrs_def)
  next
    case False
    from load_from_cache[OF False] cached merged show ?thesis
      by (simp add: All_attrs_def)
  qed
qed

theorem SetMultiple_All_roundtrip_witness:
  "fst (All_attrs no_faults store ''/a/f''
          (snd (SetMultiple no_faults store ''/a/f'' [''user.x'' \<mapsto> ''1''] True node_only)))
     = Inr [''user.x'' \<mapsto> ''1'']
   \<and> fst (All_attrs pull_refused store ''/a/f''
          (snd (SetMultiple no_faults store ''/a/f'' [''user.x'' \<mapsto> ''1''] True node_only)))
     = Inr [''user.x'' \<mapsto> ''1'']"
proof -
  have f: "files node_only (MetadataPath ''/a/f'') = None"
    by (simp add: node_only_def MetadataPath_def)
  have s: "SetMultiple no_faults store ''/a/f'' [''user.x'' \<mapsto> ''1''] True node_only
      = (Returned None,
         snd (SetMultiple no_faults store ''/a/f'' [''user.x'' \<mapsto> ''1''] True node_only))"
    by (simp add: SetMultiple_def saveAttributes_def lockedfile_OpenFile_def deferred_Close_def
        save_unlocked_def RemoveMetadata_def read_current_state_def os_ReadFile_def
        renameio_WriteFile_def PushToCache_def prepare_metadata_def marshal_x1 no_faults_None
        node_only_def MetadataPath_def LockfilePath_def)
  have p: "open_err pull_refused k = None" "readall_err pull_refused k = None"
    "push_err pull_refused k = None" "unmarshal pull_refused = unmarshal no_faults" for k
    by (simp_all add: pull_refused_def no_faults_None)
  have c: "\<forall>d. marshal no_faults [''user.x'' \<mapsto> ''1''] = Inr d
      \<longrightarrow> d \<noteq> [] \<and> unmarshal no_faults d = Inr [''user.x'' \<mapsto> ''1'']"
    using unmarshal_x1 by (auto simp: marshal_x1 enc_x_def)
  then have c': "\<forall>d. marshal no_faults [''user.x'' \<mapsto> ''1''] = Inr d
      \<longrightarrow> d \<noteq> [] \<and> unmarshal pull_refused d = Inr [''user.x'' \<mapsto> ''1'']"
    by (simp add: p)
  show ?thesis
    using SetMultiple_All_roundtrip [OF f s c no_faults_None(3) no_faults_None(4) no_faults_None(8)]
      SetMultiple_All_roundtrip [OF f s c' p(1) p(2) p(3)]
    by simp
qed

subsection \<open>A failed cache push after the write\<close>

text \<open>
  C10, as the claim states it: when the write succeeds and the final push fails, no stale
  cached value remains, because the entry was invalidated before the write, and a
  subsequent read returns the new map. The error of the invalidation is dropped, so the
  entry may still be there: with \<open>user.x = 0\<close> on disk and in the cache, and a cache that
  refuses both the invalidation and the push, \<open>Set\<close> of \<open>user.x = 1\<close> returns the error of
  the push, the sidecar file holds the new map, and the next \<open>All\<close> returns the old one
  from the cache.
\<close>

theorem stale_cache_counterexample:
  "fst (Set cache_unwritable store ''/a/f'' ''user.x'' ''1'' saved_x0) = Returned (Some (ErrOther 5))
   \<and> files (snd (Set cache_unwritable store ''/a/f'' ''user.x'' ''1'' saved_x0))
       (MetadataPath ''/a/f'') = Some (enc_x ''1'')
   \<and> fst (All_attrs no_faults store ''/a/f''
            (snd (Set cache_unwritable store ''/a/f'' ''user.x'' ''1'' saved_x0)))
       = Inr [''user.x'' \<mapsto> ''0'']"
proof -
  have s: "Set cache_unwritable store ''/a/f'' ''user.x'' ''1'' saved_x0
      = (Returned (Some (ErrOther 5)),
         saved_x0\<lparr>files := [''/a/f'' \<mapsto> ''data'', ''/a/f.mpk'' \<mapsto> enc_x ''1'',
                             ''/a/f.mlock'' \<mapsto> []]\<rparr>)"
    by (simp add: Set_def SetMultiple_def saveAttributes_def lockedfile_OpenFile_def
        deferred_Close_def save_unlocked_def cache_unwritable_def RemoveMetadata_def
        read_current_state_def os_ReadFile_def renameio_WriteFile_def PushToCache_def
        no_faults_None saved_x0_def MetadataPath_def LockfilePath_def enc_x_nonempty
        unmarshal_x0 prepare_metadata_def marshal_x1 fun_upd_twist)
  show ?thesis
    unfolding s
    by (simp add: All_attrs_def loadAttributes_def PullFromCache_def no_faults_None
        cacheKey_store saved_x0_def MetadataPath_def)
qed

text \<open>
  C10, amended: in \<open>saveAttributes\<close>, if the write of the new sidecar file succeeds and
  the final cache push fails, the operation returns the error of the push although the
  merged map is in the sidecar file; if moreover the invalidation before the write
  succeeded, the cache has no entry for the node, and a subsequent read that does not
  fail itself decodes the sidecar file and returns the new map.
\<close>

theorem push_failure_after_write:
  assumes "acquireLock \<longrightarrow> lock_err ev (LockfilePath path) = None"
      and "invalidate_err ev (cacheKey b path) = None"
      and "read_current_state ev w (MetadataPath path) = Inr base"
      and "marshal ev (prepare_metadata base setAttribs deleteAttribs) = Inr d"
      and "write_err ev (MetadataPath path) = None"
      and "push_err ev (cacheKey b path) = Some e"
      and "saveAttributes ev b path setAttribs deleteAttribs acquireLock w = (r, w')"
  shows "r = Returned (Some e)
       \<and> files w' (MetadataPath path) = Some d
       \<and> cache w' (cacheKey b path) = None
       \<and> (d \<noteq> [] \<and> unmarshal ev' d = Inr (prepare_metadata base setAttribs deleteAttribs)
            \<and> open_err ev' (MetadataPath path) = None
            \<and> readall_err ev' (MetadataPath path) = None
            \<and> push_err ev' (cacheKey b path) = None
          \<longrightarrow> fst (All_attrs ev' b path w') = Inr (prepare_metadata base setAttribs deleteAttribs))"
proof -
  obtain w0 where f: "files w0 (MetadataPath path) = files w (MetadataPath path)"
    and s: "saveAttributes ev b path setAttribs deleteAttribs acquireLock w
           = (Returned (fst (save_unlocked ev b path setAttribs deleteAttribs w0)),
              snd (save_unlocked ev b path setAttribs deleteAttribs w0))"
    using saveAttributes_locked[OF assms(1)] by blast
  from s assms(7) have r: "r = Returned (fst (save_unlocked ev b path setAttribs deleteAttribs w0))"
    and w': "w' = snd (save_unlocked ev b path setAttribs deleteAttribs w0)" by simp_all
  have "read_current_state ev w0 (MetadataPath path) = Inr base"
    using read_current_state_files[OF f] assms(3) by simp
  note u = save_unlocked_base[OF this, of b setAttribs deleteAttribs]
  have res: "r = Returned (Some e)" and sidecar: "files w' (MetadataPath path) = Some d"
    and gone: "cache w' (cacheKey b path) = None"
    using assms(2,4,5,6)
    by (simp_all add: r w' u Let_def PushToCache_def RemoveMetadata_def)
  have "fst (All_attrs ev' b path w') = Inr (prepare_metadata base setAttribs deleteAttribs)"
    if "d \<noteq> []" "unmarshal ev' d = Inr (prepare_metadata base setAttribs deleteAttribs)"
      "open_err ev' (MetadataPath path) = None" "readall_err ev' (MetadataPath path) = None"
      "push_err ev' (cacheKey b path) = None"
  proof -
    have "cache_miss ev' w' (cacheKey b path)" using gone by (simp add: cache_miss_def)
    from load_from_sidecar[OF sidecar that(1,2) this that(3-5)] show ?thesis
      by (simp add: All_attrs_def)
  qed
  with res sidecar gone show ?thesis by blast
qed

theorem push_failure_after_write_witness:
  "fst (Set push_refused store ''/a/f'' ''user.x'' ''1'' saved_x0) = Returned (Some (ErrOther 5))
   \<and> files (snd (Set push_refused store ''/a/f'' ''user.x'' ''1'' saved_x0))
       (MetadataPath ''/a/f'') = Some (enc_x ''1'')
   \<and> cache (snd (Set push_refused store ''/a/f'' ''user.x'' ''1'' saved_x0))
       (cacheKey store ''/a/f'') = None
   \<and> fst (All_attrs no_faults store ''/a/f''
            (snd (Set push_refused store ''/a/f'' ''user.x'' ''1'' saved_x0)))
       = Inr [''user.x'' \<mapsto> ''1'']"
proof -
  have e: "lock_err push_refused p = None" "invalidate_err push_refused p = None"
    "write_err push_refused p = None" "push_err push_refused p = Some (ErrOther 5)"
    "marshal push_refused = marshal no_faults" "readfile_err push_refused p = None"
    "unmarshal push_refused = unmarshal no_faults" for p
    by (simp_all add: push_refused_def no_faults_None)
  have rd: "read_current_state push_refused saved_x0 (MetadataPath ''/a/f'')
      = Inr [''user.x'' \<mapsto> ''0'']"
    by (simp add: read_current_state_def os_ReadFile_def e saved_x0_def MetadataPath_def
        enc_x_nonempty unmarshal_x0)
  have m: "marshal push_refused (prepare_metadata [''user.x'' \<mapsto> ''0''] [''user.x'' \<mapsto> ''1''] [])
      = Inr (enc_x ''1'')"
    by (simp add: e prepare_x0_x1 marshal_x1)
  have l: "True \<longrightarrow> lock_err push_refused (LockfilePath ''/a/f'') = None"
    by (simp add: e)
  have s: "saveAttributes push_refused store ''/a/f'' [''user.x'' \<mapsto> ''1''] [] True saved_x0
      = (fst (Set push_refused store ''/a/f'' ''user.x'' ''1'' saved_x0),
         snd (Set push_refused store ''/a/f'' ''user.x'' ''1'' saved_x0))"
    by (simp add: Set_def SetMultiple_def)
  show ?thesis
    using push_failure_after_write [OF l e(2) rd m e(3) e(4) s, of no_faults]
    by (simp add: enc_x_nonempty unmarshal_x1 prepare_x0_x1 no_faults_None)
qed

subsection \<open>Cache errors\<close>

text \<open>
  C5, as the claim states it: a failed invalidation before the write aborts the mutation
  in \<open>saveAttributes\<close>, and a failed invalidation of the old entry is not fatal in
  \<open>Rename\<close>. With a cache that refuses every invalidation, \<open>Set\<close> returns nil and has
  written the sidecar file, and \<open>Rename\<close> returns the error of the invalidation and has
  not renamed the sidecar file.
\<close>

theorem cache_errors_counterexample:
  "fst (Set invalidate_refused store ''/a/f'' ''user.x'' ''1'' node_only) = Returned None
   \<and> files (snd (Set invalidate_refused store ''/a/f'' ''user.x'' ''1'' node_only))
       (MetadataPath ''/a/f'') = Some (enc_x ''1'')
   \<and> fst (Rename invalidate_refused store ''/a/f'' ''/a/g'' saved_x0) = Some (ErrOther 6)
   \<and> files (snd (Rename invalidate_refused store ''/a/f'' ''/a/g'' saved_x0))
       (MetadataPath ''/a/g'') = None"
proof -
  have s: "Set invalidate_refused store ''/a/f'' ''user.x'' ''1'' node_only
      = (Returned None,
         \<lparr>files = [''/a/f'' \<mapsto> ''data'', ''/a/f.mlock'' \<mapsto> [], ''/a/f.mpk'' \<mapsto> enc_x ''1''],
          cache = [''f'' \<mapsto> [''user.x'' \<mapsto> ''1'']]\<rparr>)"
    by (simp add: Set_def SetMultiple_def saveAttributes_def lockedfile_OpenFile_def
        deferred_Close_def save_unlocked_def invalidate_refused_def RemoveMetadata_def
        read_current_state_def os_ReadFile_def renameio_WriteFile_def PushToCache_def
        no_faults_None node_only_def MetadataPath_def LockfilePath_def cacheKey_store
        prepare_metadata_def marshal_x1)
  have r: "Rename invalidate_refused store ''/a/f'' ''/a/g'' saved_x0
      = (Some (ErrOther 6),
         saved_x0\<lparr>cache := [''f'' \<mapsto> [''user.x'' \<mapsto> ''0''], ''g'' \<mapsto> [''user.x'' \<mapsto> ''0'']]\<rparr>)"
    by (simp add: Rename_def PullFromCache_def PushToCache_def RemoveMetadata_def
        invalidate_refused_def no_faults_None cacheKey_store cacheKey_store_g saved_x0_def)
  show ?thesis
    unfolding s r by (simp add: MetadataPath_def saved_x0_def)
qed

text \<open>
  C5, amended: three cache errors are not fatal. \<open>saveAttributes\<close> drops the error of the
  invalidation before the write: its result and the files it leaves do not depend on it.
  \<open>loadAttributes\<close> and \<open>Rename\<close> take an error of the cache read for a missing entry:
  the read goes on to the sidecar file, the rename goes on to the invalidation and to
  \<open>os.Rename\<close>. Every other cache error is fatal: with a failing push,
  \<open>saveAttributes\<close> never returns nil, a read that decodes an existing sidecar file
  returns the error of the push, and \<open>Rename\<close> returns it when there was an entry to
  migrate, with nothing changed; with a failing invalidation, \<open>Rename\<close> returns an error
  and renames no file, and \<open>Purge\<close> returns the error, with nothing changed.
\<close>

theorem cache_errors:
  "(fst (saveAttributes (ev\<lparr>invalidate_err := f\<rparr>) b path setAttribs deleteAttribs acquireLock w)
      = fst (saveAttributes ev b path setAttribs deleteAttribs acquireLock w)
    \<and> files (snd (saveAttributes (ev\<lparr>invalidate_err := f\<rparr>) b path setAttribs deleteAttribs
         acquireLock w))
      = files (snd (saveAttributes ev b path setAttribs deleteAttribs acquireLock w)))
   \<and> (pull_err ev (cacheKey b path) = Some e
      \<longrightarrow> loadAttributes ev b path source w = load_uncached ev b path source w)
   \<and> (pull_err ev (cacheKey b path) = Some e
      \<longrightarrow> Rename ev b path newPath w =
           (case RemoveMetadata ev w (cacheKey b path) of
              (Some e', w2) \<Rightarrow> (Some e', w2)
            | (None, w2) \<Rightarrow> os_Rename ev w2 (MetadataPath path) (MetadataPath newPath)))
   \<and> (push_err ev (cacheKey b path) = Some e
      \<longrightarrow> fst (saveAttributes ev b path setAttribs deleteAttribs acquireLock w) \<noteq> Returned None)
   \<and> (push_err ev (cacheKey b path) = Some e \<and> cache_miss ev w (cacheKey b path)
        \<and> files w (MetadataPath path) = Some d \<and> open_err ev (MetadataPath path) = None
        \<and> readall_err ev (MetadataPath path) = None \<and> (d \<noteq> [] \<longrightarrow> unmarshal ev d = Inr m)
      \<longrightarrow> All_attrs ev b path w = (Inl e, w))
   \<and> (\<not> cache_miss ev w (cacheKey b path) \<and> push_err ev (cacheKey b newPath) = Some e
      \<longrightarrow> Rename ev b path newPath w = (Some e, w))
   \<and> (invalidate_err ev (cacheKey b path) = Some e
      \<longrightarrow> fst (Rename ev b path newPath w) \<noteq> None
        \<and> files (snd (Rename ev b path newPath w)) = files w)
   \<and> (invalidate_err ev (cacheKey b path) = Some e \<longrightarrow> Purge ev b path w = (Some e, w))"
proof (intro conjI impI)
  show "pull_err ev (cacheKey b path) = Some e
      \<Longrightarrow> loadAttributes ev b path source w = load_uncached ev b path source w"
    by (rule load_pull_failed)
  show "pull_err ev (cacheKey b path) = Some e
      \<Longrightarrow> Rename ev b path newPath w =
           (case RemoveMetadata ev w (cacheKey b path) of
              (Some e', w2) \<Rightarrow> (Some e', w2)
            | (None, w2) \<Rightarrow> os_Rename ev w2 (MetadataPath path) (MetadataPath newPath))"
    by (rule Rename_pull_err)
  show "push_err ev (cacheKey b path) = Some e
      \<Longrightarrow> fst (saveAttributes ev b path setAttribs deleteAttribs acquireLock w) \<noteq> Returned None"
    by (rule saveAttributes_push_failed)
  show "push_err ev (cacheKey b path) = Some e \<and> cache_miss ev w (cacheKey b path)
        \<and> files w (MetadataPath path) = Some d \<and> open_err ev (MetadataPath path) = None
        \<and> readall_err ev (MetadataPath path) = None \<and> (d \<noteq> [] \<longrightarrow> unmarshal ev d = Inr m)
      \<Longrightarrow> All_attrs ev b path w = (Inl e, w)"
    using load_push_failed by blast
  show "\<not> cache_miss ev w (cacheKey b path) \<and> push_err ev (cacheKey b newPath) = Some e
      \<Longrightarrow> Rename ev b path newPath w = (Some e, w)"
    using Rename_push_failed by blast
  show "invalidate_err ev (cacheKey b path) = Some e \<Longrightarrow> Purge ev b path w = (Some e, w)"
    by (rule Purge_invalidate_failed)
qed (simp_all add: saveAttributes_invalidate_discarded Rename_invalidate_failed)

theorem cache_errors_witness:
  "fst (saveAttributes invalidate_refused store ''/a/f'' [''user.x'' \<mapsto> ''1''] [] True node_only)
     = fst (saveAttributes no_faults store ''/a/f'' [''user.x'' \<mapsto> ''1''] [] True node_only)
   \<and> loadAttributes cache_down store ''/a/f'' None saved_x0
     = load_uncached cache_down store ''/a/f'' None saved_x0
   \<and> fst (saveAttributes cache_down store ''/a/f'' [''user.x'' \<mapsto> ''1''] [] True saved_x0)
     \<noteq> Returned None
   \<and> All_attrs cache_down store ''/a/f'' saved_x0 = (Inl (ErrOther 5), saved_x0)
   \<and> Rename push_refused store ''/a/f'' ''/a/g'' saved_x0 = (Some (ErrOther 5), saved_x0)
   \<and> files (snd (Rename cache_down store ''/a/f'' ''/a/g'' saved_x0)) = files saved_x0
   \<and> Purge cache_down store ''/a/f'' saved_x0 = (Some (ErrOther 6), saved_x0)"
proof -
  have cd: "pull_err cache_down k = Some (ErrOther 4)" "push_err cache_down k = Some (ErrOther 5)"
    "invalidate_err cache_down k = Some (ErrOther 6)" "open_err cache_down k = None"
    "readall_err cache_down k = None" "unmarshal cache_down = unmarshal no_faults"
    "cache_miss cache_down w k" for k w
    by (simp_all add: cache_down_def no_faults_None cache_miss_def)
  have pr: "push_err push_refused k = Some (ErrOther 5)"
    "\<not> cache_miss push_refused saved_x0 (cacheKey store ''/a/f'')" for k
    by (simp_all add: push_refused_def no_faults_None cache_miss_def cacheKey_store saved_x0_def)
  have f: "files saved_x0 (MetadataPath ''/a/f'') = Some (enc_x ''0'')"
    by (simp add: saved_x0_def MetadataPath_def)
  have i: "invalidate_refused = no_faults\<lparr>invalidate_err := (\<lambda>k. Some (ErrOther 6))\<rparr>"
    by (simp add: invalidate_refused_def)
  show ?thesis
    unfolding i
    using cache_errors [where ev = no_faults and f = "\<lambda>k. Some (ErrOther 6)" and b = store
        and path = "''/a/f''" and setAttribs = "[''user.x'' \<mapsto> ''1'']" and deleteAttribs = "[]"
        and acquireLock = True and w = node_only and e = "ErrOther 0" and newPath = "''/a/g''"
        and d = "[]" and source = None]
      cache_errors [where ev = cache_down and f = "invalidate_err cache_down" and b = store
        and path = "''/a/f''" and setAttribs = "[''user.x'' \<mapsto> ''1'']" and deleteAttribs = "[]"
        and acquireLock = True and w = saved_x0 and e = "ErrOther 4" and newPath = "''/a/g''"
        and d = "enc_x ''0''" and m = "[''user.x'' \<mapsto> ''0'']" and source = None]
      cache_errors [where ev = cache_down and f = "invalidate_err cache_down" and b = store
        and path = "''/a/f''" and setAttribs = "[''user.x'' \<mapsto> ''1'']" and deleteAttribs = "[]"
        and acquireLock = True and w = saved_x0 and e = "ErrOther 5" and newPath = "''/a/g''"
        and d = "enc_x ''0''" and m = "[''user.x'' \<mapsto> ''0'']" and source = None]
      cache_errors [where ev = cache_down and f = "invalidate_err cache_down" and b = store
        and path = "''/a/f''" and setAttribs = "[''user.x'' \<mapsto> ''1'']" and deleteAttribs = "[]"
        and acquireLock = True and w = saved_x0 and e = "ErrOther 6" and newPath = "''/a/g''"
        and d = "enc_x ''0''" and m = "[''user.x'' \<mapsto> ''0'']" and source = None]
      cache_errors [where ev = push_refused and f = "invalidate_err push_refused" and b = store
        and path = "''/a/f''" and setAttribs = "[''user.x'' \<mapsto> ''1'']" and deleteAttribs = "[]"
        and acquireLock = True and w = saved_x0 and e = "ErrOther 5" and newPath = "''/a/g''"
        and d = "enc_x ''0''" and m = "[''user.x'' \<mapsto> ''0'']" and source = None]
    by (simp add: cd pr f unmarshal_x0)
qed

end
